theory Spec2Isabelle
  imports Main "HOL-Library.Word"
begin

section \<open>Stremio addon manifest validator: data model\<close>

text \<open>
  JavaScript strings are sequences of UTF-16 code units. String constants of the source
  are written \<open>js ''...''\<close>.
\<close>

type_synonym jstring = "16 word list"

definition js :: "string \<Rightarrow> jstring" where
  "js s = map of_char s"

text \<open>
  \<open>String.prototype.trim\<close> removes the ECMAScript WhiteSpace and LineTerminator code
  units from both ends: TAB, LF, VT, FF, CR, SP, NBSP, U+1680, U+2000..U+200A, U+2028,
  U+2029, U+202F, U+205F, U+3000 and U+FEFF.
\<close>

definition isWhiteSpace :: "16 word \<Rightarrow> bool" where
  "isWhiteSpace c =
     (c \<in> set [0x09, 0x0A, 0x0B, 0x0C, 0x0D, 0x20, 0xA0, 0x1680,
                0x2028, 0x2029, 0x202F, 0x205F, 0x3000, 0xFEFF]
      \<or> (0x2000 \<le> c \<and> c \<le> 0x200A))"

definition trim :: "jstring \<Rightarrow> jstring" where
  "trim s = rev (dropWhile isWhiteSpace (rev (dropWhile isWhiteSpace s)))"

definition startsWith :: "jstring \<Rightarrow> jstring \<Rightarrow> bool" where
  "startsWith s p = (take (length p) s = p)"

subsection \<open>Zod errors and parse results\<close>

text \<open>
  A \<open>ZodError\<close> carries a list of issues; each issue has a code, a path of object keys
  and array indices (empty for the whole document) and a message.
\<close>

datatype path_segment = Key jstring | Index nat

record zod_issue =
  code :: jstring
  path :: "path_segment list"
  message :: jstring

datatype zod_error = ZodError (issues: "zod_issue list")

text \<open>
  \<open>safeParse\<close> of the schema library returns the discriminated union
  \<open>{ success: true, data } | { success: false, error }\<close>. The type \<open>'v\<close> stands for
  JavaScript values (\<open>unknown\<close> in the source); no function of the repository inspects one.
\<close>

datatype 'v safe_parse_result = SafeParseSuccess 'v | SafeParseError zod_error

fun sp_success :: "'v safe_parse_result \<Rightarrow> bool" where
  "sp_success (SafeParseSuccess d) = True"
| "sp_success (SafeParseError e) = False"

fun sp_data :: "'v safe_parse_result \<Rightarrow> 'v option" where
  "sp_data (SafeParseSuccess d) = Some d"
| "sp_data (SafeParseError e) = None"

fun sp_error :: "'v safe_parse_result \<Rightarrow> zod_error option" where
  "sp_error (SafeParseSuccess d) = None"
| "sp_error (SafeParseError e) = Some e"

text \<open>
  The constant \<open>manifestSchema\<close> is imported from the package \<open>@stremio-addon/zod\<close>, which
  is not part of the repository. It is a parameter of the model: an object schema with
  the parser it runs as it is (\<open>safeParse\<close>, which accepts undeclared fields) and the
  parser it runs in strict mode (\<open>strictParse\<close>, which rejects them). The method
  \<open>.strict()\<close> returns the schema that parses in strict mode.
\<close>

record 'v zod_object =
  safeParse :: "'v \<Rightarrow> 'v safe_parse_result"
  strictParse :: "'v \<Rightarrow> 'v safe_parse_result"

definition strict :: "'v zod_object \<Rightarrow> 'v zod_object" where
  "strict S = S\<lparr>safeParse := strictParse S\<rparr>"

subsection \<open>The validation outcome\<close>

text \<open>
  The object returned by \<open>validate\<close> and kept in the state of the application:
  \<open>{ success: boolean; data?: unknown; error?: ZodError; warning?: ZodError }\<close>.
  An absent field is \<open>None\<close>.
\<close>

record 'v validation_result =
  success :: bool
  data :: "'v option"
  error :: "zod_error option"
  warning :: "zod_error option"

section \<open>The validator (src/lib/validation.ts)\<close>

definition validate :: "'v zod_object \<Rightarrow> 'v \<Rightarrow> 'v validation_result" where
  "validate manifestSchema manifest =
     (case safeParse manifestSchema manifest of
        SafeParseSuccess result_data \<Rightarrow>
          (case safeParse (strict manifestSchema) manifest of
             SafeParseError strict_error \<Rightarrow>
               \<lparr>success = True, data = Some result_data, error = None,
                warning = Some strict_error\<rparr>
           | SafeParseSuccess _ \<Rightarrow>
               \<lparr>success = True, data = Some result_data, error = None, warning = None\<rparr>)
      | SafeParseError result_error \<Rightarrow>
          \<lparr>success = False, data = None, error = Some result_error, warning = None\<rparr>)"

text \<open>The earlier revision of the validator: a single call of \<open>safeParse\<close>.\<close>

definition validate_v1 :: "'v zod_object \<Rightarrow> 'v \<Rightarrow> 'v safe_parse_result" where
  "validate_v1 manifestSchema manifest = safeParse manifestSchema manifest"

section \<open>The application (App component)\<close>

subsection \<open>Platform\<close>

text \<open>
  What the browser and the libraries provide is a parameter of the model.
  \<open>fetch\<close> either rejects with an error message or resolves to a response with its
  \<open>ok\<close> flag, its \<open>statusText\<close> and the outcome of \<open>response.json()\<close> (an error message
  or a value). The source sets no timeout and aborts nothing, so the promise of \<open>fetch\<close>
  may also never settle (\<open>Unsettled\<close>), and so may that of \<open>response.json()\<close> on a
  response that has arrived (\<open>Stalled\<close>, with the \<open>ok\<close> flag and the \<open>statusText\<close> of the
  response). \<open>JSON_parse\<close> throws (\<open>Inl\<close> with the message) or returns a value;
  \<open>JSON_stringify v n\<close> is \<open>JSON.stringify(v, null, n)\<close>. The two LZString functions
  are those of the \<open>lz-string\<close> package; \<open>searchParams_get search name\<close> is
  \<open>new URLSearchParams(search).get(name)\<close>. \<open>null\<close> is \<open>None\<close>.
\<close>

datatype 'v fetch_outcome =
  Rejected jstring
| Response (ok: bool) (statusText: jstring) (json: "jstring + 'v")
| Unsettled
| Stalled bool jstring

record 'v platform =
  manifestSchema :: "'v zod_object"
  fetch :: "jstring \<Rightarrow> 'v fetch_outcome"
  JSON_parse :: "jstring \<Rightarrow> jstring + 'v"
  JSON_stringify :: "'v \<Rightarrow> nat \<Rightarrow> jstring"
  compressToEncodedURIComponent :: "jstring \<Rightarrow> jstring"
  decompressFromEncodedURIComponent :: "jstring \<Rightarrow> jstring option"
  searchParams_get :: "jstring \<Rightarrow> jstring \<Rightarrow> jstring option"






subsection \<open>State\<close>

text \<open>
  The state hooks of the component, together with the parts of the browser the handlers
  write: the address of the page and the clipboard.
\<close>

record 'v app_state =
  input :: jstring
  isDragging :: bool
  isCopied :: bool
  validationResult :: "'v validation_result option"
  isLoading :: bool
  location_origin :: jstring
  location_pathname :: jstring
  location_search :: jstring
  clipboard :: jstring

text \<open>The state of a freshly loaded page at the given address.\<close>

definition App_init :: "jstring \<Rightarrow> jstring \<Rightarrow> jstring \<Rightarrow> jstring \<Rightarrow> 'v app_state" where
  "App_init origin pathname search clip =
     \<lparr>input = [], isDragging = False, isCopied = False, validationResult = None,
      isLoading = False, location_origin = origin, location_pathname = pathname,
      location_search = search, clipboard = clip\<rparr>"


subsection \<open>handleShare\<close>


definition handleShare_timeout :: "'v app_state \<Rightarrow> 'v app_state" where
  "handleShare_timeout st = st\<lparr>isCopied := False\<rparr>"

subsection \<open>handleValidate\<close>

definition isUrl :: "jstring \<Rightarrow> bool" where
  "isUrl trimmedInput =
     (startsWith trimmedInput (js ''http://'') \<or> startsWith trimmedInput (js ''https://''))"

text \<open>The first two statements of \<open>handleValidate\<close>.\<close>

definition handleValidate_begin :: "'v app_state \<Rightarrow> 'v app_state" where
  "handleValidate_begin st = (st\<lparr>isLoading := True\<rparr>)\<lparr>validationResult := None\<rparr>"

text \<open>
  The URL branch with its own \<open>try\<close>/\<open>catch\<close>: the error thrown for a response that is
  not ok is caught by the same \<open>catch\<close> as a rejected \<open>fetch\<close> or a body that does not
  parse, and thrown again with the prefix. \<open>None\<close>: an awaited promise never settles and
  the handler never resumes. The body of a response that is not ok is never read.
\<close>

definition fetch_manifest :: "'v platform \<Rightarrow> jstring \<Rightarrow> (jstring + 'v) option" where
  "fetch_manifest P trimmedInput =
     (case (case fetch P trimmedInput of
              Rejected m \<Rightarrow> Some (Inl m)
            | Response response_ok response_statusText body \<Rightarrow>
                if \<not> response_ok
                then Some (Inl (js ''Failed to fetch: '' @ response_statusText))
                else Some body
            | Unsettled \<Rightarrow> None
            | Stalled response_ok response_statusText \<Rightarrow>
                if \<not> response_ok
                then Some (Inl (js ''Failed to fetch: '' @ response_statusText))
                else None) of
        None \<Rightarrow> None
      | Some (Inl m) \<Rightarrow> Some (Inl (js ''Failed to fetch manifest: '' @ m))
      | Some (Inr dataToValidate) \<Rightarrow> Some (Inr dataToValidate))"

text \<open>
  The JSON branch: on success the input is replaced by the value serialised again with
  an indentation of two.
\<close>

definition parse_input ::
  "'v platform \<Rightarrow> jstring \<Rightarrow> 'v app_state \<Rightarrow> jstring + ('v app_state \<times> 'v)" where
  "parse_input P trimmedInput st =
     (case JSON_parse P trimmedInput of
        Inl m \<Rightarrow> Inl (js ''Invalid JSON format: '' @ m)
      | Inr dataToValidate \<Rightarrow>
          Inr (st\<lparr>input := JSON_stringify P dataToValidate 2\<rparr>, dataToValidate))"

text \<open>
  The body of the outer \<open>try\<close> up to the call of \<open>validate\<close>: the message of the error
  thrown, or the state and the data to validate, or \<open>None\<close> when the handler never
  resumes. The argument is a string (\<open>Some\<close>) or a mouse event (\<open>None\<close>).
\<close>

definition acquire ::
  "'v platform \<Rightarrow> jstring option \<Rightarrow> 'v app_state \<Rightarrow> 'v app_state
     \<Rightarrow> (jstring + ('v app_state \<times> 'v)) option" where
  "acquire P arg st st1 =
     (let currentInput = (case arg of Some s \<Rightarrow> s | None \<Rightarrow> input st);
          trimmedInput = trim currentInput
      in if trimmedInput = [] then Some (Inl (js ''Please enter JSON content or a URL''))
         else if isUrl trimmedInput then
           (case fetch_manifest P trimmedInput of
              None \<Rightarrow> None
            | Some (Inl m) \<Rightarrow> Some (Inl m)
            | Some (Inr dataToValidate) \<Rightarrow> Some (Inr (st1, dataToValidate)))
         else Some (parse_input P trimmedInput st1))"

text \<open>The outcome built in the outer \<open>catch\<close>.\<close>

definition custom_failure :: "jstring \<Rightarrow> 'v validation_result" where
  "custom_failure err_message =
     \<lparr>success = False, data = None,
      error = Some (ZodError [\<lparr>code = js ''custom'', path = [], message = err_message\<rparr>]),
      warning = None\<rparr>"

definition handleValidate ::
  "'v platform \<Rightarrow> jstring option \<Rightarrow> 'v app_state \<Rightarrow> 'v app_state" where
  "handleValidate P arg st =
     (let st1 = handleValidate_begin st
      in case acquire P arg st st1 of
           None \<Rightarrow> st1
         | Some (Inl err_message) \<Rightarrow>
             (st1\<lparr>validationResult := Some (custom_failure err_message)\<rparr>)
               \<lparr>isLoading := False\<rparr>
         | Some (Inr (st2, dataToValidate)) \<Rightarrow>
             (st2\<lparr>validationResult := Some (validate (manifestSchema P) dataToValidate)\<rparr>)
               \<lparr>isLoading := False\<rparr>)"

text \<open>
  \<open>handleValidate\<close> is asynchronous: in the URL branch it waits for \<open>fetch\<close>, and the state
  shown while the request is pending is the one after its first two statements. In the
  other branches nothing is awaited. \<open>handleValidate\<close> gives the state the attempt leaves
  when no other event arrives in between: the state at its end, or, when an awaited
  promise never settles, the pending state, in which it stays.
\<close>

definition handleValidate_pending ::
  "jstring option \<Rightarrow> 'v app_state \<Rightarrow> 'v app_state option" where
  "handleValidate_pending arg st =
     (let currentInput = (case arg of Some s \<Rightarrow> s | None \<Rightarrow> input st);
          trimmedInput = trim currentInput
      in if trimmedInput \<noteq> [] \<and> isUrl trimmedInput then Some (handleValidate_begin st)
         else None)"

subsection \<open>The effect on the input\<close>




subsection \<open>The effect that runs once on load\<close>


subsection \<open>handleDrop\<close>

text \<open>
  \<open>files\<close> are the texts of the dropped files, as \<open>readAsText\<close> delivers them; only the
  first one is read.
\<close>

definition handleDrop :: "'v platform \<Rightarrow> jstring list \<Rightarrow> 'v app_state \<Rightarrow> 'v app_state" where
  "handleDrop P files st =
     (let st1 = st\<lparr>isDragging := False\<rparr>
      in case files of
           [] \<Rightarrow> st1
         | content # _ \<Rightarrow>
             (case JSON_parse P content of
                Inr parsed \<Rightarrow> st1\<lparr>input := JSON_stringify P parsed 2\<rparr>
              | Inl _ \<Rightarrow> st1\<lparr>input := content\<rparr>))"

section \<open>Properties of the validator\<close>

text \<open>
  C1. For every value given to \<open>validate\<close>: if the permissive match fails, the result is
  the failure that carries the issue list of the permissive match; if the permissive
  match and the strict one both succeed, the result is the success that carries the
  parsed data; if only the strict match fails, the result is the success with warnings
  that carries the parsed data and the issue list of the strict match.
\<close>

theorem validate_outcomes:
  "(\<forall>e. safeParse S m = SafeParseError e \<longrightarrow>
        validate S m = \<lparr>success = False, data = None, error = Some e, warning = None\<rparr>
        \<and> map_option issues (error (validate S m)) = Some (issues e))
   \<and> (\<forall>d d'. safeParse S m = SafeParseSuccess d \<and> safeParse (strict S) m = SafeParseSuccess d' \<longrightarrow>
        validate S m = \<lparr>success = True, data = Some d, error = None, warning = None\<rparr>)
   \<and> (\<forall>d w. safeParse S m = SafeParseSuccess d \<and> safeParse (strict S) m = SafeParseError w \<longrightarrow>
        validate S m = \<lparr>success = True, data = Some d, error = None, warning = Some w\<rparr>
        \<and> map_option issues (warning (validate S m)) = Some (issues w))"
  by (simp add: validate_def)

theorem validate_outcomes_witness:
  "(let S = \<lparr>safeParse = (\<lambda>m::nat. if m = 0
                 then SafeParseError (ZodError [\<lparr>code = js ''invalid_type'', path = [Key (js ''id'')], message = js ''Required''\<rparr>])
                 else SafeParseSuccess m),
              strictParse = (\<lambda>m. if m = 2
                 then SafeParseError (ZodError [\<lparr>code = js ''unrecognized_keys'', path = [], message = js ''Unrecognized key''\<rparr>])
                 else SafeParseSuccess m)\<rparr>
    in safeParse S 0 = SafeParseError (ZodError [\<lparr>code = js ''invalid_type'', path = [Key (js ''id'')], message = js ''Required''\<rparr>])
       \<and> validate S 0 = \<lparr>success = False, data = None,
             error = Some (ZodError [\<lparr>code = js ''invalid_type'', path = [Key (js ''id'')], message = js ''Required''\<rparr>]),
             warning = None\<rparr>
       \<and> safeParse S 1 = SafeParseSuccess 1 \<and> safeParse (strict S) 1 = SafeParseSuccess 1
       \<and> validate S 1 = \<lparr>success = True, data = Some 1, error = None, warning = None\<rparr>
       \<and> safeParse S 2 = SafeParseSuccess 2
       \<and> safeParse (strict S) 2 = SafeParseError (ZodError [\<lparr>code = js ''unrecognized_keys'', path = [], message = js ''Unrecognized key''\<rparr>])
       \<and> validate S 2 = \<lparr>success = True, data = Some 2, error = None,
             warning = Some (ZodError [\<lparr>code = js ''unrecognized_keys'', path = [], message = js ''Unrecognized key''\<rparr>])\<rparr>)"
proof -
  let ?e = "ZodError [\<lparr>code = js ''invalid_type'', path = [Key (js ''id'')], message = js ''Required''\<rparr>]"
  let ?w = "ZodError [\<lparr>code = js ''unrecognized_keys'', path = [], message = js ''Unrecognized key''\<rparr>]"
  let ?S = "\<lparr>safeParse = (\<lambda>m::nat. if m = 0 then SafeParseError ?e else SafeParseSuccess m),
            strictParse = (\<lambda>m. if m = 2 then SafeParseError ?w else SafeParseSuccess m)\<rparr>"
  have a: "safeParse ?S 0 = SafeParseError ?e" by simp
  have b: "safeParse ?S 1 = SafeParseSuccess 1 \<and> safeParse (strict ?S) 1 = SafeParseSuccess 1"
    by (simp add: strict_def)
  have c: "safeParse ?S 2 = SafeParseSuccess 2 \<and> safeParse (strict ?S) 2 = SafeParseError ?w"
    by (simp add: strict_def)
  from a validate_outcomes [of ?S 0]
  have a': "validate ?S 0 = \<lparr>success = False, data = None, error = Some ?e, warning = None\<rparr>"
    by blast
  from b validate_outcomes [of ?S 1]
  have b': "validate ?S 1 = \<lparr>success = True, data = Some 1, error = None, warning = None\<rparr>"
    by blast
  from c validate_outcomes [of ?S 2]
  have c': "validate ?S 2 = \<lparr>success = True, data = Some 2, error = None, warning = Some ?w\<rparr>"
    by blast
  show ?thesis
    unfolding Let_def using a b c a' b' c' by blast
qed

text \<open>
  C9. For every value, the result of \<open>validate\<close> has the error field exactly when
  \<open>success\<close> is false, the data field exactly when \<open>success\<close> is true, and the warning
  field only when \<open>success\<close> is true.
\<close>

theorem validate_shape:
  "(error (validate S m) \<noteq> None) = (\<not> success (validate S m))
   \<and> (data (validate S m) \<noteq> None) = success (validate S m)
   \<and> (warning (validate S m) \<noteq> None \<longrightarrow> success (validate S m))"
  by (simp add: validate_def split: safe_parse_result.splits)

theorem validate_shape_witness:
  "(let S = \<lparr>safeParse = SafeParseSuccess,
              strictParse = (\<lambda>m::nat. SafeParseError (ZodError
                [\<lparr>code = js ''unrecognized_keys'', path = [], message = js ''Unrecognized key''\<rparr>]))\<rparr>
    in warning (validate S 7) \<noteq> None \<and> success (validate S 7))"
proof -
  let ?S = "\<lparr>safeParse = SafeParseSuccess,
              strictParse = (\<lambda>m::nat. SafeParseError (ZodError
                [\<lparr>code = js ''unrecognized_keys'', path = [], message = js ''Unrecognized key''\<rparr>]))\<rparr>"
  have h: "warning (validate ?S 7) \<noteq> None"
    by (simp add: validate_def strict_def)
  with validate_shape [of ?S 7] have "success (validate ?S 7)"
    by blast
  with h show ?thesis
    unfolding Let_def by blast
qed

text \<open>
  C10. For every value, the earlier single-pass validator and the two-pass one agree on the
  success flag, on the data carried on success and on the error carried on failure. The
  result type has one more field, the warning, and it is present only on a success.
\<close>

theorem validate_refines_v1:
  "success (validate S m) = sp_success (validate_v1 S m)
   \<and> data (validate S m) = sp_data (validate_v1 S m)
   \<and> error (validate S m) = sp_error (validate_v1 S m)
   \<and> (warning (validate S m) \<noteq> None \<longrightarrow> sp_success (validate_v1 S m))"
  by (simp add: validate_def validate_v1_def split: safe_parse_result.splits)

theorem validate_refines_v1_witness:
  "(let S = \<lparr>safeParse = SafeParseSuccess,
              strictParse = (\<lambda>m::nat. SafeParseError (ZodError
                [\<lparr>code = js ''unrecognized_keys'', path = [], message = js ''Unrecognized key''\<rparr>]))\<rparr>
    in warning (validate S 3) \<noteq> None \<and> sp_success (validate_v1 S 3)
       \<and> data (validate S 3) = sp_data (validate_v1 S 3))"
proof -
  let ?S = "\<lparr>safeParse = SafeParseSuccess,
              strictParse = (\<lambda>m::nat. SafeParseError (ZodError
                [\<lparr>code = js ''unrecognized_keys'', path = [], message = js ''Unrecognized key''\<rparr>]))\<rparr>"
  have h: "warning (validate ?S 3) \<noteq> None"
    by (simp add: validate_def strict_def)
  with validate_refines_v1 [of ?S 3]
  have "sp_success (validate_v1 ?S 3) \<and> data (validate ?S 3) = sp_data (validate_v1 ?S 3)"
    by blast
  with h show ?thesis
    unfolding Let_def by blast
qed

section \<open>Properties of the application\<close>

subsection \<open>Auxiliary facts\<close>

lemma trim_blank: "(\<forall>c \<in> set s. isWhiteSpace c) \<Longrightarrow> trim s = []"
proof -
  assume "\<forall>c \<in> set s. isWhiteSpace c"
  then have "dropWhile isWhiteSpace s = []"
    by (simp add: dropWhile_eq_Nil_conv)
  then show "trim s = []"
    by (simp add: trim_def del: dropWhile_eq_Nil_conv)
qed


lemma fetch_manifest_None:
  "(fetch_manifest P t = None) = (fetch P t = Unsettled \<or> (\<exists>s. fetch P t = Stalled True s))"
  by (cases "fetch P t") (auto simp add: fetch_manifest_def split: sum.splits)

lemma acquire_None:
  "(acquire P arg st st1 = None) =
     (let t = trim (case arg of Some s \<Rightarrow> s | None \<Rightarrow> input st)
      in t \<noteq> [] \<and> isUrl t \<and> fetch_manifest P t = None)"
  by (simp add: acquire_def Let_def split: option.splits sum.splits)



lemma handleValidate_unsettled:
  "acquire P arg st (handleValidate_begin st) = None \<Longrightarrow>
   handleValidate P arg st = handleValidate_begin st"
  by (simp add: handleValidate_def)

lemma handleValidate_settled:
  "acquire P arg st (handleValidate_begin st) \<noteq> None \<Longrightarrow>
   (\<exists>r. validationResult (handleValidate P arg st) = Some r)
   \<and> \<not> isLoading (handleValidate P arg st)"
  by (auto simp add: handleValidate_def Let_def split: sum.splits prod.splits option.splits)


lemma acquire_prior:
  "acquire P arg (st\<lparr>validationResult := r, isLoading := l\<rparr>) st1 = acquire P arg st st1"
  by (cases arg) (simp_all add: acquire_def)

lemma handleValidate_begin_prior:
  "handleValidate_begin (st\<lparr>validationResult := r, isLoading := l\<rparr>) = handleValidate_begin st"
  by (simp add: handleValidate_begin_def)

lemma handleValidate_frame:
  "isDragging (handleValidate P arg st) = isDragging st
   \<and> isCopied (handleValidate P arg st) = isCopied st
   \<and> location_origin (handleValidate P arg st) = location_origin st
   \<and> location_pathname (handleValidate P arg st) = location_pathname st
   \<and> location_search (handleValidate P arg st) = location_search st
   \<and> clipboard (handleValidate P arg st) = clipboard st"
  by (simp add: handleValidate_def acquire_def parse_input_def handleValidate_begin_def Let_def
      split: sum.splits option.splits)






text \<open>
  The input after an attempt: unchanged, unless the trimmed text is not an address and
  parses as JSON; then it is the parsed value serialised with an indentation of two.
\<close>

lemma handleValidate_input:
  "input (handleValidate P arg st) =
     (let t = trim (case arg of Some s \<Rightarrow> s | None \<Rightarrow> input st)
      in if t = [] \<or> isUrl t then input st
         else (case JSON_parse P t of Inl m \<Rightarrow> input st | Inr d \<Rightarrow> JSON_stringify P d 2))"
  by (simp add: handleValidate_def acquire_def parse_input_def handleValidate_begin_def Let_def
      split: sum.splits option.splits)

subsection \<open>Blank input\<close>

text \<open>
  C5. When the text to validate (the string argument, or the input when the handler is
  called with an event) is empty or consists of white space only, \<open>handleValidate\<close> ends
  with a failure whose error has exactly one issue, at the root path.
\<close>

theorem handleValidate_blank:
  assumes "\<forall>c \<in> set currentInput. isWhiteSpace c"
    and "currentInput = (case arg of Some s \<Rightarrow> s | None \<Rightarrow> input st)"
  shows "\<exists>r i. validationResult (handleValidate P arg st) = Some r
           \<and> success r = False \<and> error r = Some (ZodError [i]) \<and> path i = []"
proof -
  from assms have "trim (case arg of Some s \<Rightarrow> s | None \<Rightarrow> input st) = []"
    by (simp add: trim_blank)
  then have "acquire P arg st (handleValidate_begin st)
               = Some (Inl (js ''Please enter JSON content or a URL''))"
    by (simp add: acquire_def)
  then show ?thesis
    by (simp add: handleValidate_def custom_failure_def)
qed

theorem handleValidate_blank_witness:
  "(let P = \<lparr>manifestSchema = \<lparr>safeParse = SafeParseSuccess, strictParse = SafeParseSuccess\<rparr>,
              fetch = (\<lambda>u. Rejected []),
              JSON_parse = (\<lambda>s. Inr (0::nat)),
              JSON_stringify = (\<lambda>v n. js ''0''),
              compressToEncodedURIComponent = (\<lambda>s. s),
              decompressFromEncodedURIComponent = Some,
              searchParams_get = (\<lambda>s n. None)\<rparr>;
        st = App_init [] (js ''/'') [] []
    in (\<forall>c \<in> set [0x20, 0x09, 0x0A, 0xA0]. isWhiteSpace c)
       \<and> (\<exists>r i. validationResult (handleValidate P (Some [0x20, 0x09, 0x0A, 0xA0]) st) = Some r
              \<and> success r = False \<and> error r = Some (ZodError [i]) \<and> path i = []))"
proof -
  have a: "\<forall>c \<in> set [0x20, 0x09, 0x0A, 0xA0]. isWhiteSpace c"
    by (simp add: isWhiteSpace_def)
  have b: "[0x20, 0x09, 0x0A, 0xA0] = (case Some [0x20, 0x09, 0x0A, 0xA0] of Some s \<Rightarrow> s | None \<Rightarrow> input st)"
    for st :: "nat app_state"
    by simp
  from handleValidate_blank [OF a b] a show ?thesis
    unfolding Let_def by blast
qed

subsection \<open>Dropped files\<close>

text \<open>
  C6. For the text of a dropped file: when it parses as JSON, the input becomes the parsed
  value serialised with an indentation of two; when parsing fails, the input becomes the
  text of the file unchanged.
\<close>

theorem handleDrop_input:
  "(\<forall>parsed. JSON_parse P content = Inr parsed \<longrightarrow>
       input (handleDrop P (content # rest) st) = JSON_stringify P parsed 2)
   \<and> (\<forall>m. JSON_parse P content = Inl m \<longrightarrow>
       input (handleDrop P (content # rest) st) = content)"
  by (simp add: handleDrop_def)

theorem handleDrop_input_witness:
  "(let P = \<lparr>manifestSchema = \<lparr>safeParse = SafeParseSuccess, strictParse = SafeParseSuccess\<rparr>,
              fetch = (\<lambda>u. Rejected []),
              JSON_parse = (\<lambda>s. if s = js ''[1]'' then Inr (1::nat) else Inl (js ''Unexpected token'')),
              JSON_stringify = (\<lambda>v n. js ''['' @ [0x0A] @ replicate n 0x20 @ js ''1'' @ [0x0A] @ js '']''),
              compressToEncodedURIComponent = (\<lambda>s. s),
              decompressFromEncodedURIComponent = Some,
              searchParams_get = (\<lambda>s n. None)\<rparr>;
        st = App_init [] (js ''/'') [] []
    in JSON_parse P (js ''[1]'') = Inr 1
       \<and> input (handleDrop P [js ''[1]''] st) = js ''['' @ [0x0A, 0x20, 0x20] @ js ''1'' @ [0x0A] @ js '']''
       \<and> JSON_parse P (js ''{id:'') = Inl (js ''Unexpected token'')
       \<and> input (handleDrop P [js ''{id:''] st) = js ''{id:'')"
proof -
  let ?P = "\<lparr>manifestSchema = \<lparr>safeParse = SafeParseSuccess, strictParse = SafeParseSuccess\<rparr>,
              fetch = (\<lambda>u. Rejected []),
              JSON_parse = (\<lambda>s. if s = js ''[1]'' then Inr (1::nat) else Inl (js ''Unexpected token'')),
              JSON_stringify = (\<lambda>v n. js ''['' @ [0x0A] @ replicate n 0x20 @ js ''1'' @ [0x0A] @ js '']''),
              compressToEncodedURIComponent = (\<lambda>s. s),
              decompressFromEncodedURIComponent = Some,
              searchParams_get = (\<lambda>s n. None)\<rparr>"
  let ?st = "App_init [] (js ''/'') [] [] :: nat app_state"
  have a: "JSON_parse ?P (js ''[1]'') = Inr 1"
    by simp
  have b: "JSON_parse ?P (js ''{id:'') = Inl (js ''Unexpected token'')"
    by (simp add: js_def)
  have s: "JSON_stringify ?P 1 2 = js ''['' @ [0x0A, 0x20, 0x20] @ js ''1'' @ [0x0A] @ js '']''"
    by (simp add: numeral_2_eq_2)
  from handleDrop_input [of ?P "js ''[1]''" "[]" ?st] a
  have a': "input (handleDrop ?P [js ''[1]''] ?st) = JSON_stringify ?P 1 2"
    by blast
  from handleDrop_input [of ?P "js ''{id:''" "[]" ?st] b
  have b': "input (handleDrop ?P [js ''{id:''] ?st) = js ''{id:''"
    by blast
  from a b a' b' s show ?thesis
    unfolding Let_def by (simp only: simp_thms)
qed

subsection \<open>Failures of an attempt\<close>



subsection \<open>What an attempt does to the state\<close>

text \<open>
  C8 says that an attempt leaves the result displayed before intact until a new result
  replaces it. It does not: with a result on display and the address of a manifest as
  input, the state shown while the request is pending has no result at all.
\<close>

theorem handleValidate_pending_counterexample:
  "handleValidate_pending None
     \<lparr>input = js ''https://a.b/manifest.json'', isDragging = False, isCopied = False,
      validationResult = Some \<lparr>success = True, data = Some (1::nat), error = None, warning = None\<rparr>,
      isLoading = False, location_origin = [], location_pathname = js ''/'',
      location_search = [], clipboard = []\<rparr>
   = Some \<lparr>input = js ''https://a.b/manifest.json'', isDragging = False, isCopied = False,
      validationResult = None,
      isLoading = True, location_origin = [], location_pathname = js ''/'',
      location_search = [], clipboard = []\<rparr>"
  by (simp add: handleValidate_pending_def handleValidate_begin_def Let_def trim_def isUrl_def
      startsWith_def isWhiteSpace_def js_def)

text \<open>
  C8, as amended. Let \<open>t\<close> be the trimmed text of the attempt.

  When \<open>t\<close> is empty or not an address, nothing is awaited: no state is shown in between,
  and the attempt ends with a result set and the loading flag cleared, so the result
  displayed before stays until the new one replaces it.

  When \<open>t\<close> is an address, the attempt first clears the result displayed before and sets
  the loading flag, and this state is shown while the request is pending. When \<open>fetch\<close>
  and the reading of the body settle, the attempt ends with a result set and the loading
  flag cleared, whatever failed. When one of them never settles, the state stays as it
  is, loading and without a result.

  The state an attempt leaves does not depend on the earlier result or loading flag. Of
  the remaining state it changes the input only: when \<open>t\<close> is not empty, not an address
  and parses as JSON, the input becomes the parsed value serialised with an indentation of
  two; else the input stays.
\<close>

theorem handleValidate_attempt:
  assumes t: "t = trim (case arg of Some s \<Rightarrow> s | None \<Rightarrow> input st)"
  shows
    "((t = [] \<or> \<not> isUrl t) \<longrightarrow>
        handleValidate_pending arg st = None
        \<and> (\<exists>r'. validationResult (handleValidate P arg st) = Some r')
        \<and> \<not> isLoading (handleValidate P arg st))
     \<and> ((t \<noteq> [] \<and> isUrl t) \<longrightarrow>
        handleValidate_pending arg st = Some (st\<lparr>isLoading := True, validationResult := None\<rparr>))
     \<and> ((t \<noteq> [] \<and> isUrl t \<and> fetch P t \<noteq> Unsettled \<and> (\<forall>s. fetch P t \<noteq> Stalled True s)) \<longrightarrow>
        (\<exists>r'. validationResult (handleValidate P arg st) = Some r')
        \<and> \<not> isLoading (handleValidate P arg st))
     \<and> ((t \<noteq> [] \<and> isUrl t \<and> (fetch P t = Unsettled \<or> (\<exists>s. fetch P t = Stalled True s))) \<longrightarrow>
        handleValidate P arg st = st\<lparr>isLoading := True, validationResult := None\<rparr>)
     \<and> handleValidate P arg (st\<lparr>validationResult := r, isLoading := l\<rparr>) = handleValidate P arg st
     \<and> isDragging (handleValidate P arg st) = isDragging st
     \<and> isCopied (handleValidate P arg st) = isCopied st
     \<and> location_origin (handleValidate P arg st) = location_origin st
     \<and> location_pathname (handleValidate P arg st) = location_pathname st
     \<and> location_search (handleValidate P arg st) = location_search st
     \<and> clipboard (handleValidate P arg st) = clipboard st
     \<and> input (handleValidate P arg st) =
         (if t = [] \<or> isUrl t then input st
          else (case JSON_parse P t of Inl m \<Rightarrow> input st | Inr d \<Rightarrow> JSON_stringify P d 2))"
proof -
  let ?a = "acquire P arg st (handleValidate_begin st)"
  have none: "(?a = None) = (t \<noteq> [] \<and> isUrl t \<and> (fetch P t = Unsettled \<or> (\<exists>s. fetch P t = Stalled True s)))"
    by (simp add: acquire_None fetch_manifest_None t Let_def)
  have direct: "(t = [] \<or> \<not> isUrl t) \<longrightarrow>
        handleValidate_pending arg st = None
        \<and> (\<exists>r'. validationResult (handleValidate P arg st) = Some r')
        \<and> \<not> isLoading (handleValidate P arg st)"
  proof
    assume d: "t = [] \<or> \<not> isUrl t"
    then have "?a \<noteq> None"
      using none by blast
    then have "(\<exists>r'. validationResult (handleValidate P arg st) = Some r')
        \<and> \<not> isLoading (handleValidate P arg st)"
      by (rule handleValidate_settled)
    moreover from d have "handleValidate_pending arg st = None"
      by (auto simp add: handleValidate_pending_def t Let_def)
    ultimately show "handleValidate_pending arg st = None
        \<and> (\<exists>r'. validationResult (handleValidate P arg st) = Some r')
        \<and> \<not> isLoading (handleValidate P arg st)"
      by blast
  qed
  have pending: "(t \<noteq> [] \<and> isUrl t) \<longrightarrow>
        handleValidate_pending arg st = Some (st\<lparr>isLoading := True, validationResult := None\<rparr>)"
    by (simp add: handleValidate_pending_def handleValidate_begin_def t Let_def)
  have settled: "(t \<noteq> [] \<and> isUrl t \<and> fetch P t \<noteq> Unsettled \<and> (\<forall>s. fetch P t \<noteq> Stalled True s)) \<longrightarrow>
        (\<exists>r'. validationResult (handleValidate P arg st) = Some r')
        \<and> \<not> isLoading (handleValidate P arg st)"
  proof
    assume "t \<noteq> [] \<and> isUrl t \<and> fetch P t \<noteq> Unsettled \<and> (\<forall>s. fetch P t \<noteq> Stalled True s)"
    then have "?a \<noteq> None"
      using none by blast
    then show "(\<exists>r'. validationResult (handleValidate P arg st) = Some r')
        \<and> \<not> isLoading (handleValidate P arg st)"
      by (rule handleValidate_settled)
  qed
  have stuck: "(t \<noteq> [] \<and> isUrl t \<and> (fetch P t = Unsettled \<or> (\<exists>s. fetch P t = Stalled True s))) \<longrightarrow>
        handleValidate P arg st = st\<lparr>isLoading := True, validationResult := None\<rparr>"
  proof
    assume "t \<noteq> [] \<and> isUrl t \<and> (fetch P t = Unsettled \<or> (\<exists>s. fetch P t = Stalled True s))"
    then have "?a = None"
      using none by blast
    then have "handleValidate P arg st = handleValidate_begin st"
      by (rule handleValidate_unsettled)
    then show "handleValidate P arg st = st\<lparr>isLoading := True, validationResult := None\<rparr>"
      by (simp add: handleValidate_begin_def)
  qed
  have prior: "handleValidate P arg (st\<lparr>validationResult := r, isLoading := l\<rparr>) = handleValidate P arg st"
    by (simp add: handleValidate_def acquire_prior handleValidate_begin_prior)
  have inp: "input (handleValidate P arg st) =
         (if t = [] \<or> isUrl t then input st
          else (case JSON_parse P t of Inl m \<Rightarrow> input st | Inr d \<Rightarrow> JSON_stringify P d 2))"
    using handleValidate_input [of P arg st] by (simp add: t Let_def)
  from direct pending settled stuck prior handleValidate_frame [of P arg st] inp
  show ?thesis
    by (simp only: simp_thms)
qed

theorem handleValidate_attempt_witness:
  "(let P = \<lparr>manifestSchema = \<lparr>safeParse = SafeParseSuccess, strictParse = SafeParseSuccess\<rparr>,
              fetch = (\<lambda>u. if u = js ''http://a'' then Unsettled
                           else if u = js ''http://b'' then Stalled True (js ''OK'')
                           else Response True (js ''OK'') (Inr (2::nat))),
              JSON_parse = (\<lambda>s. if s = js ''0'' then Inr 0 else Inl (js ''Unexpected token'')),
              JSON_stringify = (\<lambda>v n. js ''0''),
              compressToEncodedURIComponent = (\<lambda>s. s),
              decompressFromEncodedURIComponent = Some,
              searchParams_get = (\<lambda>s n. None)\<rparr>;
        st = \<lparr>input = js ''x'', isDragging = False, isCopied = False,
               validationResult = Some \<lparr>success = True, data = Some 1, error = None,
                                        warning = None\<rparr>,
               isLoading = False, location_origin = [], location_pathname = js ''/'',
               location_search = [], clipboard = []\<rparr>;
        cleared = st\<lparr>isLoading := True, validationResult := None\<rparr>
    in handleValidate_pending (Some (js '' 0'')) st = None
       \<and> (\<exists>r'. validationResult (handleValidate P (Some (js '' 0'')) st) = Some r')
       \<and> \<not> isLoading (handleValidate P (Some (js '' 0'')) st)
       \<and> input (handleValidate P (Some (js '' 0'')) st) = js ''0''
       \<and> handleValidate_pending (Some (js ''http://c'')) st = Some cleared
       \<and> (\<exists>r'. validationResult (handleValidate P (Some (js ''http://c'')) st) = Some r')
       \<and> \<not> isLoading (handleValidate P (Some (js ''http://c'')) st)
       \<and> handleValidate P (Some (js ''http://a'')) st = cleared
       \<and> handleValidate P (Some (js ''http://b'')) st = cleared)"
proof -
  let ?P = "\<lparr>manifestSchema = \<lparr>safeParse = SafeParseSuccess, strictParse = SafeParseSuccess\<rparr>,
              fetch = (\<lambda>u. if u = js ''http://a'' then Unsettled
                           else if u = js ''http://b'' then Stalled True (js ''OK'')
                           else Response True (js ''OK'') (Inr (2::nat))),
              JSON_parse = (\<lambda>s. if s = js ''0'' then Inr 0 else Inl (js ''Unexpected token'')),
              JSON_stringify = (\<lambda>v n. js ''0''),
              compressToEncodedURIComponent = (\<lambda>s. s),
              decompressFromEncodedURIComponent = Some,
              searchParams_get = (\<lambda>s n. None)\<rparr>"
  let ?st = "\<lparr>input = js ''x'', isDragging = False, isCopied = False,
               validationResult = Some \<lparr>success = True, data = Some (1::nat), error = None,
                                        warning = None\<rparr>,
               isLoading = False, location_origin = [], location_pathname = js ''/'',
               location_search = [], clipboard = []\<rparr>"
  note ev = trim_def isWhiteSpace_def isUrl_def startsWith_def js_def
  have t0: "js ''0'' = trim (case Some (js '' 0'') of Some s \<Rightarrow> s | None \<Rightarrow> input ?st)"
    by (simp add: ev)
  have ta: "js ''http://a'' = trim (case Some (js ''http://a'') of Some s \<Rightarrow> s | None \<Rightarrow> input ?st)"
    by (simp add: ev)
  have tb: "js ''http://b'' = trim (case Some (js ''http://b'') of Some s \<Rightarrow> s | None \<Rightarrow> input ?st)"
    by (simp add: ev)
  have tc: "js ''http://c'' = trim (case Some (js ''http://c'') of Some s \<Rightarrow> s | None \<Rightarrow> input ?st)"
    by (simp add: ev)
  have h0: "js ''0'' = [] \<or> \<not> isUrl (js ''0'')"
    by (simp add: ev)
  have p0: "JSON_parse ?P (js ''0'') = Inr 0" "JSON_stringify ?P 0 2 = js ''0''"
    by simp_all
  have ha: "js ''http://a'' \<noteq> [] \<and> isUrl (js ''http://a'')
            \<and> (fetch ?P (js ''http://a'') = Unsettled \<or> (\<exists>s. fetch ?P (js ''http://a'') = Stalled True s))"
    by (simp add: ev)
  have hb: "js ''http://b'' \<noteq> [] \<and> isUrl (js ''http://b'')
            \<and> (fetch ?P (js ''http://b'') = Unsettled \<or> (\<exists>s. fetch ?P (js ''http://b'') = Stalled True s))"
    by (simp add: ev)
  have hc: "js ''http://c'' \<noteq> [] \<and> isUrl (js ''http://c'')
            \<and> fetch ?P (js ''http://c'') \<noteq> Unsettled \<and> (\<forall>s. fetch ?P (js ''http://c'') \<noteq> Stalled True s)"
    by (simp add: ev)
  have n0: "js ''0'' \<noteq> []" "\<not> isUrl (js ''0'')"
    by (simp_all add: ev)
  note a0 = handleValidate_attempt [where P = "?P" and r = None and l = False, OF t0]
  note aa = handleValidate_attempt [where P = "?P" and r = None and l = False, OF ta]
  note ab = handleValidate_attempt [where P = "?P" and r = None and l = False, OF tb]
  note ac = handleValidate_attempt [where P = "?P" and r = None and l = False, OF tc]
  have r0: "handleValidate_pending (Some (js '' 0'')) ?st = None
       \<and> (\<exists>r'. validationResult (handleValidate ?P (Some (js '' 0'')) ?st) = Some r')
       \<and> \<not> isLoading (handleValidate ?P (Some (js '' 0'')) ?st)"
    by (rule a0 [THEN conjunct1, THEN mp, OF h0])
  have "input (handleValidate ?P (Some (js '' 0'')) ?st) =
         (if js ''0'' = [] \<or> isUrl (js ''0'') then input ?st
          else (case JSON_parse ?P (js ''0'') of Inl m \<Rightarrow> input ?st
                | Inr d \<Rightarrow> JSON_stringify ?P d 2))"
    by (rule a0 [THEN conjunct2, THEN conjunct2, THEN conjunct2, THEN conjunct2,
          THEN conjunct2, THEN conjunct2, THEN conjunct2, THEN conjunct2, THEN conjunct2,
          THEN conjunct2, THEN conjunct2])
  with n0 p0 have i0: "input (handleValidate ?P (Some (js '' 0'')) ?st) = js ''0''"
    by simp
  have hc1: "js ''http://c'' \<noteq> [] \<and> isUrl (js ''http://c'')"
    by (simp add: ev)
  have rc1: "handleValidate_pending (Some (js ''http://c'')) ?st
              = Some (?st\<lparr>isLoading := True, validationResult := None\<rparr>)"
    by (rule ac [THEN conjunct2, THEN conjunct1, THEN mp, OF hc1])
  have rc2: "(\<exists>r'. validationResult (handleValidate ?P (Some (js ''http://c'')) ?st) = Some r')
       \<and> \<not> isLoading (handleValidate ?P (Some (js ''http://c'')) ?st)"
    by (rule ac [THEN conjunct2, THEN conjunct2, THEN conjunct1, THEN mp, OF hc])
  have ra: "handleValidate ?P (Some (js ''http://a'')) ?st
              = ?st\<lparr>isLoading := True, validationResult := None\<rparr>"
    by (rule aa [THEN conjunct2, THEN conjunct2, THEN conjunct2, THEN conjunct1, THEN mp, OF ha])
  have rb: "handleValidate ?P (Some (js ''http://b'')) ?st
              = ?st\<lparr>isLoading := True, validationResult := None\<rparr>"
    by (rule ab [THEN conjunct2, THEN conjunct2, THEN conjunct2, THEN conjunct1, THEN mp, OF hb])
  from r0 i0 rc1 rc2 ra rb show ?thesis
    unfolding Let_def by (intro conjI) (erule conjunct1 conjunct2 | assumption | (drule conjunct2, erule conjunct1 conjunct2))+
qed

subsection \<open>Shared links\<close>




end
